theory Spec2Isabelle
  imports Main "HOL-Library.Word"
begin

unbundle bit_operations_syntax

section \<open>The MySQL client session of go-mysql (client/conn.go)\<close>

text \<open>
  A shallow embedding of \<^verbatim>\<open>client/conn.go\<close>. A Go method on \<^verbatim>\<open>*Conn\<close> becomes a
  function that takes the session and returns the updated session next to its Go result.
  A Go \<^verbatim>\<open>error\<close> result is an \<open>error option\<close> (\<open>None\<close> is \<^verbatim>\<open>nil\<close>), a Go pointer
  result is an option as well. Functions of other packages that \<^verbatim>\<open>conn.go\<close> calls
  (the packet transport, the handshake steps, the result readers) are the fields of an
  environment record \<open>env\<close>.
\<close>

subsection \<open>Data\<close>

type_synonym byte = "8 word"

text \<open>\<^verbatim>\<open>time.Duration\<close>: a count of nanoseconds.\<close>

type_synonym duration = int

definition Second :: duration where
  "Second = 1000000000"

text \<open>
  Error values. \<open>Trace\<close> is \<^verbatim>\<open>errors.Trace\<close> on a non-nil error, \<open>Errorf\<close> is
  \<^verbatim>\<open>fmt.Errorf\<close>/\<^verbatim>\<open>errors.Errorf\<close> with the formatted message, \<open>ErrorfW\<close> is
  \<^verbatim>\<open>fmt.Errorf\<close> with a \<^verbatim>\<open>%w\<close> verb (prefix and wrapped error), \<open>Failure\<close> is an
  error made by a collaborator.
\<close>

datatype error =
    ErrMalformPacket
  | Errorf string
  | ErrorfW string error
  | Trace error
  | Failure string

datatype compression = MYSQL_COMPRESS_NONE | MYSQL_COMPRESS_ZLIB | MYSQL_COMPRESS_ZSTD

datatype StreamingType = StreamingNone | StreamingSelect | StreamingMultiple

datatype go_context = Background | Derived nat

record tls_Config =
  InsecureSkipVerify :: bool

record net_Dialer =
  Timeout :: duration

record Collation =
  ID :: nat

text \<open>
  Modelled from the spec: \<^verbatim>\<open>packet.Conn\<close> is not in the source at hand. It is the
  transport of section 6 of the specification: the raw connection, the packet sequence
  number, the compression mode (none, zlib, zstd), the timeouts and the buffer size;
  \<open>buffered\<close> is false for the transport made by \<^verbatim>\<open>NewTLSConnWithTimeout\<close>.
\<close>

record 'n packet_Conn =
  netConn :: 'n
  Sequence :: byte
  Compression :: compression
  readTimeout :: duration
  writeTimeout :: duration
  bufferSize :: int
  buffered :: bool

definition NewConnWithTimeout :: "'n \<Rightarrow> duration \<Rightarrow> duration \<Rightarrow> int \<Rightarrow> 'n packet_Conn" where
  "NewConnWithTimeout conn rt wt bs =
     \<lparr>netConn = conn, Sequence = 0, Compression = MYSQL_COMPRESS_NONE,
      readTimeout = rt, writeTimeout = wt, bufferSize = bs, buffered = True\<rparr>"

definition NewTLSConnWithTimeout :: "'n \<Rightarrow> duration \<Rightarrow> duration \<Rightarrow> 'n packet_Conn" where
  "NewTLSConnWithTimeout conn rt wt =
     \<lparr>netConn = conn, Sequence = 0, Compression = MYSQL_COMPRESS_NONE,
      readTimeout = rt, writeTimeout = wt, bufferSize = 0, buffered = False\<rparr>"

text \<open>
  Modelled from the spec: \<^verbatim>\<open>Resultset\<close>, \<^verbatim>\<open>Result\<close>, \<^verbatim>\<open>NewResultset\<close> and
  \<^verbatim>\<open>NewResult\<close> belong to the \<^verbatim>\<open>mysql\<close> package, which is not in the source at hand.
  A Result holds the status flags, the warning count, the last insert id, the affected
  rows and an optional resultset; a resultset holds field metadata, rows, and the
  streaming marker with its completion flag (section 3 of the specification).
\<close>

record Resultset =
  Fields :: "string list"
  Values :: "string list list"
  Streaming :: StreamingType
  StreamingDone :: bool

record Result =
  Status :: "16 word"
  Warnings :: "16 word"
  InsertId :: "64 word"
  AffectedRows :: "64 word"
  resultset :: "Resultset option"

definition NewResultset :: "nat \<Rightarrow> Resultset" where
  "NewResultset fieldsCount =
     \<lparr>Fields = replicate fieldsCount [], Values = [],
      Streaming = StreamingNone, StreamingDone = False\<rparr>"

definition NewResult :: "Resultset \<Rightarrow> Result" where
  "NewResult rs =
     \<lparr>Status = 0, Warnings = 0, InsertId = 0, AffectedRows = 0, resultset = Some rs\<rparr>"

text \<open>The struct \<^verbatim>\<open>Conn\<close>; \<open>pconn\<close> is the embedded \<^verbatim>\<open>*packet.Conn\<close>.\<close>

record 'n Conn =
  pconn :: "'n packet_Conn option"
  user :: string
  password :: string
  db :: string
  tlsConfig :: "tls_Config option"
  proto :: string
  ReadTimeout :: duration
  WriteTimeout :: duration
  BufferSize :: int
  serverVersion :: string
  capability :: "32 word"
  ccaps :: "32 word"
  attributes :: "(string \<times> string) list"
  status :: "16 word"
  charset :: string
  collation :: string
  salt :: "byte list"
  authPluginName :: string
  connectionID :: "32 word"

text \<open>\<^verbatim>\<open>new(Conn)\<close>: every field has its zero value.\<close>

definition new_Conn :: "'n Conn" where
  "new_Conn =
     \<lparr>pconn = None, user = [], password = [], db = [], tlsConfig = None, proto = [],
      ReadTimeout = 0, WriteTimeout = 0, BufferSize = 0, serverVersion = [],
      capability = 0, ccaps = 0, attributes = [], status = 0, charset = [],
      collation = [], salt = [], authPluginName = [], connectionID = 0\<rparr>"

text \<open>
  The collaborators of \<^verbatim>\<open>conn.go\<close>, none of them in the source at hand. A method on
  \<^verbatim>\<open>*Conn\<close> takes the session and returns it, since it may assign its fields and use
  its transport. \<open>packetClose\<close> is \<^verbatim>\<open>packet.Conn.Close\<close>, called through the embedded
  pointer, which may be nil. \<open>GetCollationByName\<close> yields the collation or an error.
\<close>

record 'n env =
  GOOS :: string
  GOARCH :: string
  runtime_Version :: string
  DialContext :: "net_Dialer \<Rightarrow> go_context \<Rightarrow> string \<Rightarrow> string \<Rightarrow> error + 'n"
  netClose :: "'n \<Rightarrow> error option \<times> 'n"
  packetClose :: "'n packet_Conn option \<Rightarrow> error option \<times> 'n packet_Conn option"
  readInitialHandshake :: "'n Conn \<Rightarrow> error option \<times> 'n Conn"
  writeAuthHandshake :: "'n Conn \<Rightarrow> error option \<times> 'n Conn"
  handleAuthResult :: "'n Conn \<Rightarrow> error option \<times> 'n Conn"
  writeCommand :: "byte \<Rightarrow> 'n Conn \<Rightarrow> error option \<times> 'n Conn"
  writeCommandStr :: "byte \<Rightarrow> string \<Rightarrow> 'n Conn \<Rightarrow> error option \<times> 'n Conn"
  readOK :: "'n Conn \<Rightarrow> (Result option \<times> error option) \<times> 'n Conn"
  readResult :: "bool \<Rightarrow> 'n Conn \<Rightarrow> (Result option \<times> error option) \<times> 'n Conn"
  GetCollationByName :: "string \<Rightarrow> error + Collation"

subsection \<open>Protocol constants\<close>

text \<open>
  Modelled from the spec: the constants of the \<^verbatim>\<open>mysql\<close> package are not in the source
  at hand; section 6 of the specification fixes them to the numeric values of the MySQL
  protocol.
\<close>

definition COM_QUIT :: byte where "COM_QUIT = 1"
definition COM_INIT_DB :: byte where "COM_INIT_DB = 2"
definition COM_QUERY :: byte where "COM_QUERY = 3"

definition OK_HEADER :: byte where "OK_HEADER = 0x00"
definition ERR_HEADER :: byte where "ERR_HEADER = 0xff"
definition LocalInFile_HEADER :: byte where "LocalInFile_HEADER = 0xfb"

text \<open>The capability flags: bit 0 to bit 31, in the order of the protocol.\<close>

definition CLIENT_LONG_PASSWORD :: "32 word" where "CLIENT_LONG_PASSWORD = 1"
definition CLIENT_FOUND_ROWS :: "32 word" where "CLIENT_FOUND_ROWS = 2"
definition CLIENT_LONG_FLAG :: "32 word" where "CLIENT_LONG_FLAG = 4"
definition CLIENT_CONNECT_WITH_DB :: "32 word" where "CLIENT_CONNECT_WITH_DB = 8"
definition CLIENT_NO_SCHEMA :: "32 word" where "CLIENT_NO_SCHEMA = 16"
definition CLIENT_COMPRESS :: "32 word" where "CLIENT_COMPRESS = 32"
definition CLIENT_ODBC :: "32 word" where "CLIENT_ODBC = 64"
definition CLIENT_LOCAL_FILES :: "32 word" where "CLIENT_LOCAL_FILES = 128"
definition CLIENT_IGNORE_SPACE :: "32 word" where "CLIENT_IGNORE_SPACE = 256"
definition CLIENT_PROTOCOL_41 :: "32 word" where "CLIENT_PROTOCOL_41 = 512"
definition CLIENT_INTERACTIVE :: "32 word" where "CLIENT_INTERACTIVE = 1024"
definition CLIENT_SSL :: "32 word" where "CLIENT_SSL = 2048"
definition CLIENT_IGNORE_SIGPIPE :: "32 word" where "CLIENT_IGNORE_SIGPIPE = 4096"
definition CLIENT_TRANSACTIONS :: "32 word" where "CLIENT_TRANSACTIONS = 8192"
definition CLIENT_RESERVED :: "32 word" where "CLIENT_RESERVED = 16384"
definition CLIENT_SECURE_CONNECTION :: "32 word" where "CLIENT_SECURE_CONNECTION = 32768"
definition CLIENT_MULTI_STATEMENTS :: "32 word" where "CLIENT_MULTI_STATEMENTS = 65536"
definition CLIENT_MULTI_RESULTS :: "32 word" where "CLIENT_MULTI_RESULTS = 131072"
definition CLIENT_PS_MULTI_RESULTS :: "32 word" where "CLIENT_PS_MULTI_RESULTS = 262144"
definition CLIENT_PLUGIN_AUTH :: "32 word" where "CLIENT_PLUGIN_AUTH = 524288"
definition CLIENT_CONNECT_ATTRS :: "32 word" where "CLIENT_CONNECT_ATTRS = 1048576"
definition CLIENT_PLUGIN_AUTH_LENENC_CLIENT_DATA :: "32 word" where "CLIENT_PLUGIN_AUTH_LENENC_CLIENT_DATA = 2097152"
definition CLIENT_CAN_HANDLE_EXPIRED_PASSWORDS :: "32 word" where "CLIENT_CAN_HANDLE_EXPIRED_PASSWORDS = 4194304"
definition CLIENT_SESSION_TRACK :: "32 word" where "CLIENT_SESSION_TRACK = 8388608"
definition CLIENT_DEPRECATE_EOF :: "32 word" where "CLIENT_DEPRECATE_EOF = 16777216"
definition CLIENT_OPTIONAL_RESULTSET_METADATA :: "32 word" where "CLIENT_OPTIONAL_RESULTSET_METADATA = 33554432"
definition CLIENT_ZSTD_COMPRESSION_ALGORITHM :: "32 word" where "CLIENT_ZSTD_COMPRESSION_ALGORITHM = 67108864"
definition CLIENT_QUERY_ATTRIBUTES :: "32 word" where "CLIENT_QUERY_ATTRIBUTES = 134217728"
definition MULTI_FACTOR_AUTHENTICATION :: "32 word" where "MULTI_FACTOR_AUTHENTICATION = 268435456"
definition CLIENT_CAPABILITY_EXTENSION :: "32 word" where "CLIENT_CAPABILITY_EXTENSION = 536870912"
definition CLIENT_SSL_VERIFY_SERVER_CERT :: "32 word" where "CLIENT_SSL_VERIFY_SERVER_CERT = 1073741824"
definition CLIENT_REMEMBER_OPTIONS :: "32 word" where "CLIENT_REMEMBER_OPTIONS = 2147483648"

text \<open>The server status flags.\<close>

definition SERVER_STATUS_IN_TRANS :: "16 word" where "SERVER_STATUS_IN_TRANS = 1"
definition SERVER_STATUS_AUTOCOMMIT :: "16 word" where "SERVER_STATUS_AUTOCOMMIT = 2"
definition SERVER_MORE_RESULTS_EXISTS :: "16 word" where "SERVER_MORE_RESULTS_EXISTS = 8"
definition SERVER_STATUS_NO_GOOD_INDEX_USED :: "16 word" where "SERVER_STATUS_NO_GOOD_INDEX_USED = 16"
definition SERVER_STATUS_NO_INDEX_USED :: "16 word" where "SERVER_STATUS_NO_INDEX_USED = 32"
definition SERVER_STATUS_CURSOR_EXISTS :: "16 word" where "SERVER_STATUS_CURSOR_EXISTS = 64"
definition SERVER_STATUS_LAST_ROW_SEND :: "16 word" where "SERVER_STATUS_LAST_ROW_SEND = 128"
definition SERVER_STATUS_DB_DROPPED :: "16 word" where "SERVER_STATUS_DB_DROPPED = 256"
definition SERVER_STATUS_NO_BACKSLASH_ESCAPED :: "16 word" where "SERVER_STATUS_NO_BACKSLASH_ESCAPED = 512"
definition SERVER_STATUS_METADATA_CHANGED :: "16 word" where "SERVER_STATUS_METADATA_CHANGED = 1024"
definition SERVER_QUERY_WAS_SLOW :: "16 word" where "SERVER_QUERY_WAS_SLOW = 2048"
definition SERVER_PS_OUT_PARAMS :: "16 word" where "SERVER_PS_OUT_PARAMS = 4096"

definition DEFAULT_CHARSET :: string where "DEFAULT_CHARSET = ''utf8''"

definition defaultBufferSize :: int where "defaultBufferSize = 65536"

subsection \<open>Choosing the network\<close>

text \<open>\<^verbatim>\<open>strings.Contains\<close>: \<open>substr\<close> occurs in \<open>s\<close> as a contiguous run of bytes.\<close>

fun hasPrefix :: "string \<Rightarrow> string \<Rightarrow> bool" where
  "hasPrefix s [] = True"
| "hasPrefix [] (p # ps) = False"
| "hasPrefix (x # xs) (p # ps) = (x = p \<and> hasPrefix xs ps)"

fun Contains :: "string \<Rightarrow> string \<Rightarrow> bool" where
  "Contains [] substr = (substr = [])"
| "Contains (x # xs) substr = (hasPrefix (x # xs) substr \<or> Contains xs substr)"

definition getNetProto :: "string \<Rightarrow> string" where
  "getNetProto addr = (if Contains addr ''/'' then ''unix'' else ''tcp'')"

subsection \<open>Session operations\<close>

definition Close :: "'n env \<Rightarrow> 'n Conn \<Rightarrow> error option \<times> 'n Conn" where
  "Close E c = (case packetClose E (pconn c) of (err, p) \<Rightarrow> (err, c\<lparr>pconn := p\<rparr>))"

definition Quit :: "'n env \<Rightarrow> 'n Conn \<Rightarrow> error option \<times> 'n Conn" where
  "Quit E c =
     (case writeCommand E COM_QUIT c of
        (Some err, c1) \<Rightarrow> (Some err, c1)
      | (None, c1) \<Rightarrow> Close E c1)"

definition SetCapability :: "32 word \<Rightarrow> 'n Conn \<Rightarrow> 'n Conn" where
  "SetCapability cap c = c\<lparr>ccaps := ccaps c OR cap\<rparr>"

definition UnsetCapability :: "32 word \<Rightarrow> 'n Conn \<Rightarrow> 'n Conn" where
  "UnsetCapability cap c = c\<lparr>ccaps := ccaps c AND NOT cap\<rparr>"

definition HasCapability :: "32 word \<Rightarrow> 'n Conn \<Rightarrow> bool" where
  "HasCapability cap c = (ccaps c AND cap > 0)"

definition UseDB :: "'n env \<Rightarrow> string \<Rightarrow> 'n Conn \<Rightarrow> error option \<times> 'n Conn" where
  "UseDB E dbName c =
     (if db c = dbName then (None, c)
      else case writeCommandStr E COM_INIT_DB dbName c of
        (Some err, c1) \<Rightarrow> (Some (Trace err), c1)
      | (None, c1) \<Rightarrow>
          (case readOK E c1 of
             ((r, Some err), c2) \<Rightarrow> (Some (Trace err), c2)
           | ((r, None), c2) \<Rightarrow> (None, c2\<lparr>db := dbName\<rparr>)))"

definition GetDB :: "'n Conn \<Rightarrow> string" where
  "GetDB c = db c"

definition SetCollation :: "string \<Rightarrow> 'n Conn \<Rightarrow> error option \<times> 'n Conn" where
  "SetCollation name c =
     (if length (serverVersion c) \<noteq> 0
      then (Some (Trace (Errorf ''cannot set collation after connection is established'')), c)
      else (None, c\<lparr>collation := name\<rparr>))"

definition GetCollation :: "'n Conn \<Rightarrow> string" where
  "GetCollation c = collation c"

subsection \<open>Connecting\<close>

text \<open>
  What a connect entry point does: it returns a session and a nil error, or a nil session
  and an error (\<open>Refused\<close>, with the raw connection as it was left behind when one had
  been opened), or it dereferences a nil transport pointer.
\<close>

datatype 'n connect_result =
    Connected "'n Conn"
  | Refused error "'n option"
  | Panicked

type_synonym 'n Dialer = "go_context \<Rightarrow> string \<Rightarrow> string \<Rightarrow> error + 'n"

type_synonym 'n Option = "'n Conn \<Rightarrow> error option \<times> 'n Conn"

definition handshake :: "'n env \<Rightarrow> 'n Conn \<Rightarrow> error option \<times> 'n Conn" where
  "handshake E c =
     (case readInitialHandshake E c of
        (Some err, c1) \<Rightarrow>
          (case Close E c1 of (ignored, c2) \<Rightarrow>
             (Some (Trace (ErrorfW ''readInitialHandshake: '' err)), c2))
      | (None, c1) \<Rightarrow>
          (case writeAuthHandshake E c1 of
             (Some err, c2) \<Rightarrow>
               (case Close E c2 of (ignored, c3) \<Rightarrow>
                  (Some (Trace (ErrorfW ''writeAuthHandshake: '' err)), c3))
           | (None, c2) \<Rightarrow>
               (case handleAuthResult E c2 of
                  (Some err, c3) \<Rightarrow>
                    (case Close E c3 of (ignored, c4) \<Rightarrow>
                       (Some (Trace (ErrorfW ''handleAuthResult: '' err)), c4))
                | (None, c3) \<Rightarrow> (None, c3))))"

definition exec :: "'n env \<Rightarrow> string \<Rightarrow> 'n Conn \<Rightarrow> (Result option \<times> error option) \<times> 'n Conn" where
  "exec E query c =
     (case writeCommandStr E COM_QUERY query c of
        (Some err, c1) \<Rightarrow> ((None, Some (Trace err)), c1)
      | (None, c1) \<Rightarrow> readResult E False c1)"

text \<open>The loop over the configuration functions: it stops at the first one that fails.\<close>

fun applyOptions :: "'n Option list \<Rightarrow> 'n Conn \<Rightarrow> error option \<times> 'n Conn" where
  "applyOptions [] c = (None, c)"
| "applyOptions (option # options) c =
     (case option c of
        (Some err, c1) \<Rightarrow> (Some err, c1)
      | (None, c1) \<Rightarrow> applyOptions options c1)"

text \<open>
  \<^verbatim>\<open>c.Conn.Compression = x\<close>: an assignment through the embedded pointer, \<open>None\<close> when
  the pointer is nil.
\<close>

definition setCompression :: "compression \<Rightarrow> 'n Conn \<Rightarrow> 'n Conn option" where
  "setCompression x c =
     (case pconn c of
        None \<Rightarrow> None
      | Some p \<Rightarrow> Some (c\<lparr>pconn := Some (p\<lparr>Compression := x\<rparr>)\<rparr>))"

text \<open>Lines 150 to 154: the codec is chosen from \<^verbatim>\<open>c.ccaps\<close>.\<close>

definition enableCompression :: "'n Conn \<Rightarrow> 'n Conn option" where
  "enableCompression c =
     (if ccaps c AND CLIENT_COMPRESS > 0 then setCompression MYSQL_COMPRESS_ZLIB c
      else if ccaps c AND CLIENT_ZSTD_COMPRESSION_ALGORITHM > 0
        then setCompression MYSQL_COMPRESS_ZSTD c
      else Some c)"

text \<open>Lines 156 to 173: the statement that sets a collation whose id needs two bytes.\<close>

definition setNames :: "'n env \<Rightarrow> 'n Conn \<Rightarrow> 'n connect_result" where
  "setNames E c =
     (if length (collation c) \<noteq> 0 then
        (case GetCollationByName E (collation c) of
           Inl err \<Rightarrow>
             (case Close E c of (ignored, c1) \<Rightarrow>
                Refused (Trace (Errorf (''invalid collation name '' @ collation c)))
                  (map_option netConn (pconn c1)))
         | Inr coll \<Rightarrow>
             (if ID coll > 255 then
                (case exec E (''SET NAMES '' @ charset c @ '' COLLATE '' @ collation c) c of
                   ((r, Some err), c1) \<Rightarrow>
                     (case Close E c1 of (ignored, c2) \<Rightarrow>
                        Refused (Trace err) (map_option netConn (pconn c2)))
                 | ((r, None), c1) \<Rightarrow> Connected c1)
              else Connected c))
      else Connected c)"

text \<open>Lines 138 to 143: the packet transport over the dialled connection.\<close>

definition newTransport :: "'n \<Rightarrow> 'n Conn \<Rightarrow> 'n Conn" where
  "newTransport conn c =
     (let p = NewConnWithTimeout conn (ReadTimeout c) (WriteTimeout c) (BufferSize c)
      in if tlsConfig c \<noteq> None
         then c\<lparr>pconn := Some ((NewTLSConnWithTimeout conn (ReadTimeout c) (WriteTimeout c))
                                 \<lparr>Sequence := Sequence p\<rparr>)\<rparr>
         else c\<lparr>pconn := Some p\<rparr>)"

definition ConnectWithDialer ::
  "'n env \<Rightarrow> go_context \<Rightarrow> string \<Rightarrow> string \<Rightarrow> string \<Rightarrow> string \<Rightarrow> string \<Rightarrow>
   'n Dialer \<Rightarrow> 'n Option list \<Rightarrow> 'n connect_result" where
  "ConnectWithDialer E ctx network addr usr passwd dbName dialer options =
     (let c0 = new_Conn\<lparr>BufferSize := defaultBufferSize,
                 attributes := [(''_client_name'', ''go-mysql''), (''_os'', GOOS E),
                                (''_platform'', GOARCH E),
                                (''_runtime_version'', runtime_Version E)]\<rparr>;
          network1 = (if network = [] then getNetProto addr else network)
      in case dialer ctx network1 addr of
           Inl err \<Rightarrow> Refused (Trace err) None
         | Inr conn \<Rightarrow>
             (let c1 = c0\<lparr>user := usr, password := passwd, db := dbName, proto := network1,
                          charset := DEFAULT_CHARSET\<rparr>
              in case applyOptions options c1 of
                   (Some err, c2) \<Rightarrow> Refused err (Some (snd (netClose E conn)))
                 | (None, c2) \<Rightarrow>
                     (case handshake E (newTransport conn c2) of
                        (Some err, c3) \<Rightarrow> Refused (Trace err) (map_option netConn (pconn c3))
                      | (None, c3) \<Rightarrow>
                          (case enableCompression c3 of
                             None \<Rightarrow> Panicked
                           | Some c4 \<Rightarrow> setNames E c4))))"

definition ConnectWithContext ::
  "'n env \<Rightarrow> go_context \<Rightarrow> string \<Rightarrow> string \<Rightarrow> string \<Rightarrow> string \<Rightarrow> duration \<Rightarrow>
   'n Option list \<Rightarrow> 'n connect_result" where
  "ConnectWithContext E ctx addr usr passwd dbName timeout options =
     (let dialer = \<lparr>Timeout = timeout\<rparr>
      in ConnectWithDialer E ctx [] addr usr passwd dbName (DialContext E dialer) options)"

definition ConnectWithTimeout ::
  "'n env \<Rightarrow> string \<Rightarrow> string \<Rightarrow> string \<Rightarrow> string \<Rightarrow> duration \<Rightarrow>
   'n Option list \<Rightarrow> 'n connect_result" where
  "ConnectWithTimeout E addr usr passwd dbName timeout options =
     ConnectWithContext E Background addr usr passwd dbName (Second * 10) options"

definition Connect ::
  "'n env \<Rightarrow> string \<Rightarrow> string \<Rightarrow> string \<Rightarrow> string \<Rightarrow> 'n Option list \<Rightarrow> 'n connect_result" where
  "Connect E addr usr passwd dbName options =
     ConnectWithTimeout E addr usr passwd dbName (Second * 10) options"

subsection \<open>ExecuteMultiple\<close>

text \<open>
  ExecuteMultiple writes one query command and then reads responses in a loop. What its
  collaborators return is given by the server: \<open>send\<close> is the outcome of
  \<^verbatim>\<open>writeCommandStr\<close>, and \<open>response n\<close> is what the \<open>n\<close>-th turn of the loop meets:
  a read of \<^verbatim>\<open>ReadPacketReuseMem\<close> that fails, or the bytes of a packet together with
  what the handler chosen by the switch returns for it (\<^verbatim>\<open>handleOKPacket\<close> and
  \<^verbatim>\<open>readResultset\<close> return a result and an error, \<^verbatim>\<open>handleErrorPacket\<close> an error,
  read from the second component). The calls of \<^verbatim>\<open>perResultCallback\<close> are recorded in
  the order in which they are made.
\<close>

type_synonym call = "Result option \<times> error option"

datatype response = ReadFails error | Packet "byte list" "Result option" "error option"

record server =
  send :: "byte \<Rightarrow> string \<Rightarrow> error option"
  response :: "nat \<Rightarrow> response"

text \<open>The switch on the first byte of the packet, lines 319 to 330.\<close>

definition classify :: "byte \<Rightarrow> call \<Rightarrow> call" where
  "classify header handled =
     (if header = OK_HEADER then handled
      else if header = ERR_HEADER then (None, snd handled)
      else if header = LocalInFile_HEADER then (None, Some ErrMalformPacket)
      else handled)"

text \<open>
  The loop of lines 313 to 338. It leaves by \<^verbatim>\<open>break\<close>, by returning the traced read
  error, or by a run-time panic: \<^verbatim>\<open>bs.B[0]\<close> on a packet without bytes, and
  \<^verbatim>\<open>result.Status\<close> on a nil result that came with a nil error. Next to the exit it
  yields the callback calls made and the number of packets read. A server that always
  signals more results keeps the loop running for ever: the value is \<open>None\<close>.
\<close>

datatype loop_exit = Break | ReadError error | Panic

partial_function (option) readLoop ::
  "(nat \<Rightarrow> response) \<Rightarrow> nat \<Rightarrow> call list \<Rightarrow> (loop_exit \<times> call list \<times> nat) option" where
  "readLoop srv i made =
     (case srv i of
        ReadFails err \<Rightarrow> Some (ReadError (Trace err), made, i)
      | Packet bs r e \<Rightarrow>
          (case bs of
             [] \<Rightarrow> Some (Panic, made, Suc i)
           | header # rest \<Rightarrow>
               (let call = classify header (r, e); made1 = made @ [call]
                in if snd call \<noteq> None then Some (Break, made1, Suc i)
                   else case fst call of
                          None \<Rightarrow> Some (Panic, made1, Suc i)
                        | Some result \<Rightarrow>
                            if Status result AND SERVER_MORE_RESULTS_EXISTS = 0
                            then Some (Break, made1, Suc i)
                            else readLoop srv (Suc i) made1)))"

text \<open>Lines 344 to 347: the result that signals the end of the streaming session.\<close>

definition doneResult :: Result where
  "doneResult =
     NewResult ((NewResultset 0)\<lparr>Streaming := StreamingMultiple, StreamingDone := True\<rparr>)"

text \<open>
  A finished call of ExecuteMultiple: the Go results (\<open>None\<close> when the call panicked),
  the callback calls made, and the number of packets read.
\<close>

record run =
  returned :: "call option"
  calls :: "call list"
  consumed :: nat

definition ExecuteMultiple :: "server \<Rightarrow> string \<Rightarrow> run option" where
  "ExecuteMultiple S query =
     (case send S COM_QUERY query of
        Some err \<Rightarrow> Some \<lparr>returned = Some (None, Some (Trace err)), calls = [], consumed = 0\<rparr>
      | None \<Rightarrow>
          (case readLoop (response S) 0 [] of
             None \<Rightarrow> None
           | Some (ReadError err, made, n) \<Rightarrow>
               Some \<lparr>returned = Some (None, Some err), calls = made, consumed = n\<rparr>
           | Some (Panic, made, n) \<Rightarrow> Some \<lparr>returned = None, calls = made, consumed = n\<rparr>
           | Some (Break, made, n) \<Rightarrow>
               Some \<lparr>returned = Some (Some doneResult, None), calls = made, consumed = n\<rparr>))"

text \<open>
  The behaviour the specification describes, in its words: the pair handed to the callback
  for a response; whether the loop reads on after a call (no error, and the result's status
  has the more-results bit) or stops after it (an error, or a status without the bit); the
  first response after which the loop does not read on; the calls and packet reads up to
  a response.
\<close>

definition delivery :: "response \<Rightarrow> call list" where
  "delivery rsp =
     (case rsp of
        ReadFails err \<Rightarrow> []
      | Packet bs r e \<Rightarrow>
          (case bs of [] \<Rightarrow> [] | header # rest \<Rightarrow> [classify header (r, e)]))"

definition continuesAfter :: "call \<Rightarrow> bool" where
  "continuesAfter call =
     (snd call = None \<and>
      (case fst call of
         None \<Rightarrow> False
       | Some result \<Rightarrow> Status result AND SERVER_MORE_RESULTS_EXISTS \<noteq> 0))"

definition stopsAfter :: "call \<Rightarrow> bool" where
  "stopsAfter call =
     (snd call \<noteq> None \<or>
      (case fst call of
         None \<Rightarrow> False
       | Some result \<Rightarrow> Status result AND SERVER_MORE_RESULTS_EXISTS = 0))"

definition goesOn :: "response \<Rightarrow> bool" where
  "goesOn rsp = (delivery rsp \<noteq> [] \<and> list_all continuesAfter (delivery rsp))"

definition firstStop :: "(nat \<Rightarrow> response) \<Rightarrow> nat \<Rightarrow> bool" where
  "firstStop srv k = (list_all (\<lambda>j. goesOn (srv j)) [0..<k] \<and> \<not> goesOn (srv k))"

definition callsUpTo :: "(nat \<Rightarrow> response) \<Rightarrow> nat \<Rightarrow> call list" where
  "callsUpTo srv n = concat (map (\<lambda>j. delivery (srv j)) [0..<n])"

definition isPacket :: "response \<Rightarrow> bool" where
  "isPacket rsp = (case rsp of ReadFails err \<Rightarrow> False | Packet bs r e \<Rightarrow> True)"

definition readsUpTo :: "(nat \<Rightarrow> response) \<Rightarrow> nat \<Rightarrow> nat" where
  "readsUpTo srv n = length (filter (\<lambda>j. isPacket (srv j)) [0..<n])"

definition exitAt :: "response \<Rightarrow> loop_exit" where
  "exitAt rsp =
     (case rsp of
        ReadFails err \<Rightarrow> ReadError (Trace err)
      | Packet bs r e \<Rightarrow>
          (case bs of
             [] \<Rightarrow> Panic
           | header # rest \<Rightarrow>
               if stopsAfter (classify header (r, e)) then Break else Panic))"

text \<open>
  Scripted servers: the responses are those of a list, and the connection is closed after
  the last one. Two results, with and without the more-results bit.
\<close>

definition okMore :: Result where "okMore = (NewResult (NewResultset 0))\<lparr>Status := 10\<rparr>"
definition okLast :: Result where "okLast = (NewResult (NewResultset 0))\<lparr>Status := 2\<rparr>"

definition script :: "response list \<Rightarrow> nat \<Rightarrow> response" where
  "script rs n = (if n < length rs then rs ! n else ReadFails (Failure ''connection closed''))"

definition scripted :: "response list \<Rightarrow> server" where
  "scripted rs = \<lparr>send = (\<lambda>cmd arg. None), response = script rs\<rparr>"

definition threeStatements :: "response list" where
  "threeStatements =
     [Packet [0x00, 0x01, 0x00, 0x0a, 0x00] (Some okMore) None,
      Packet [0xff, 0x28, 0x04] None (Some (Failure ''syntax error'')),
      Packet [0x00, 0x00, 0x00, 0x02, 0x00] (Some okLast) None]"

definition twoStatements :: "response list" where
  "twoStatements =
     [Packet [0x00, 0x01, 0x00, 0x0a, 0x00] (Some okMore) None,
      Packet [0x00, 0x00, 0x00, 0x02, 0x00] (Some okLast) None]"

definition infileRequest :: "response list" where
  "infileRequest = [Packet [0xfb, 0x2f, 0x74] None None]"

definition oneThenClosed :: "response list" where
  "oneThenClosed = [Packet [0x00, 0x01, 0x00, 0x0a, 0x00] (Some okMore) None]"

subsection \<open>Rendering the flag sets\<close>

text \<open>\<^verbatim>\<open>fmt.Sprintf\<close> with \<^verbatim>\<open>%d\<close> on an unsigned value: its decimal digits.\<close>

fun decimal :: "nat \<Rightarrow> string" where
  "decimal n =
     (if n < 10 then [''0123456789'' ! n]
      else decimal (n div 10) @ [''0123456789'' ! (n mod 10)])"

declare decimal.simps [simp del]

text \<open>\<^verbatim>\<open>strings.Join\<close>.\<close>

fun Join :: "string list \<Rightarrow> string \<Rightarrow> string" where
  "Join [] sep = []"
| "Join [x] sep = x"
| "Join (x # y # ys) sep = x @ sep @ Join (y # ys) sep"

text \<open>The switch of CapabilityString, lines 498 to 565.\<close>

definition capabilityName :: "32 word \<Rightarrow> string" where
  "capabilityName field =
     (
      if field = CLIENT_LONG_PASSWORD then ''CLIENT_LONG_PASSWORD''
      else if field = CLIENT_FOUND_ROWS then ''CLIENT_FOUND_ROWS''
      else if field = CLIENT_LONG_FLAG then ''CLIENT_LONG_FLAG''
      else if field = CLIENT_CONNECT_WITH_DB then ''CLIENT_CONNECT_WITH_DB''
      else if field = CLIENT_NO_SCHEMA then ''CLIENT_NO_SCHEMA''
      else if field = CLIENT_COMPRESS then ''CLIENT_COMPRESS''
      else if field = CLIENT_ODBC then ''CLIENT_ODBC''
      else if field = CLIENT_LOCAL_FILES then ''CLIENT_LOCAL_FILES''
      else if field = CLIENT_IGNORE_SPACE then ''CLIENT_IGNORE_SPACE''
      else if field = CLIENT_PROTOCOL_41 then ''CLIENT_PROTOCOL_41''
      else if field = CLIENT_INTERACTIVE then ''CLIENT_INTERACTIVE''
      else if field = CLIENT_SSL then ''CLIENT_SSL''
      else if field = CLIENT_IGNORE_SIGPIPE then ''CLIENT_IGNORE_SIGPIPE''
      else if field = CLIENT_TRANSACTIONS then ''CLIENT_TRANSACTIONS''
      else if field = CLIENT_RESERVED then ''CLIENT_RESERVED''
      else if field = CLIENT_SECURE_CONNECTION then ''CLIENT_SECURE_CONNECTION''
      else if field = CLIENT_MULTI_STATEMENTS then ''CLIENT_MULTI_STATEMENTS''
      else if field = CLIENT_MULTI_RESULTS then ''CLIENT_MULTI_RESULTS''
      else if field = CLIENT_PS_MULTI_RESULTS then ''CLIENT_PS_MULTI_RESULTS''
      else if field = CLIENT_PLUGIN_AUTH then ''CLIENT_PLUGIN_AUTH''
      else if field = CLIENT_CONNECT_ATTRS then ''CLIENT_CONNECT_ATTRS''
      else if field = CLIENT_PLUGIN_AUTH_LENENC_CLIENT_DATA then ''CLIENT_PLUGIN_AUTH_LENENC_CLIENT_DATA''
      else if field = CLIENT_CAN_HANDLE_EXPIRED_PASSWORDS then ''CLIENT_CAN_HANDLE_EXPIRED_PASSWORDS''
      else if field = CLIENT_SESSION_TRACK then ''CLIENT_SESSION_TRACK''
      else if field = CLIENT_DEPRECATE_EOF then ''CLIENT_DEPRECATE_EOF''
      else if field = CLIENT_OPTIONAL_RESULTSET_METADATA then ''CLIENT_OPTIONAL_RESULTSET_METADATA''
      else if field = CLIENT_ZSTD_COMPRESSION_ALGORITHM then ''CLIENT_ZSTD_COMPRESSION_ALGORITHM''
      else if field = CLIENT_QUERY_ATTRIBUTES then ''CLIENT_QUERY_ATTRIBUTES''
      else if field = MULTI_FACTOR_AUTHENTICATION then ''MULTI_FACTOR_AUTHENTICATION''
      else if field = CLIENT_CAPABILITY_EXTENSION then ''CLIENT_CAPABILITY_EXTENSION''
      else if field = CLIENT_SSL_VERIFY_SERVER_CERT then ''CLIENT_SSL_VERIFY_SERVER_CERT''
      else if field = CLIENT_REMEMBER_OPTIONS then ''CLIENT_REMEMBER_OPTIONS''
      else ''('' @ decimal (unat field) @ '')'')"

text \<open>
  The loop of CapabilityString, lines 491 to 566. \<^verbatim>\<open>uint32(1 << i)\<close> is a shift of a
  32-bit one: it is zero from \<open>i = 32\<close> on, and the loop would not end if bits were left
  then.
\<close>

partial_function (option) capabilityLoop ::
  "nat \<Rightarrow> 32 word \<Rightarrow> string list \<Rightarrow> string list option" where
  "capabilityLoop i capability' caps =
     (if capability' \<noteq> 0 then
        (let field = (push_bit i 1 :: 32 word)
         in if capability' AND field = 0 then capabilityLoop (Suc i) capability' caps
            else capabilityLoop (Suc i) (capability' XOR field) (caps @ [capabilityName field]))
      else Some caps)"

definition CapabilityString :: "'n Conn \<Rightarrow> string option" where
  "CapabilityString c =
     map_option (\<lambda>caps. Join caps ''|'') (capabilityLoop 0 (capability c) [])"

text \<open>The switch of StatusString, lines 581 to 608.\<close>

definition statusName :: "16 word \<Rightarrow> string" where
  "statusName field =
     (
      if field = SERVER_STATUS_IN_TRANS then ''SERVER_STATUS_IN_TRANS''
      else if field = SERVER_STATUS_AUTOCOMMIT then ''SERVER_STATUS_AUTOCOMMIT''
      else if field = SERVER_MORE_RESULTS_EXISTS then ''SERVER_MORE_RESULTS_EXISTS''
      else if field = SERVER_STATUS_NO_GOOD_INDEX_USED then ''SERVER_STATUS_NO_GOOD_INDEX_USED''
      else if field = SERVER_STATUS_NO_INDEX_USED then ''SERVER_STATUS_NO_INDEX_USED''
      else if field = SERVER_STATUS_CURSOR_EXISTS then ''SERVER_STATUS_CURSOR_EXISTS''
      else if field = SERVER_STATUS_LAST_ROW_SEND then ''SERVER_STATUS_LAST_ROW_SEND''
      else if field = SERVER_STATUS_DB_DROPPED then ''SERVER_STATUS_DB_DROPPED''
      else if field = SERVER_STATUS_NO_BACKSLASH_ESCAPED then ''SERVER_STATUS_NO_BACKSLASH_ESCAPED''
      else if field = SERVER_STATUS_METADATA_CHANGED then ''SERVER_STATUS_METADATA_CHANGED''
      else if field = SERVER_QUERY_WAS_SLOW then ''SERVER_QUERY_WAS_SLOW''
      else if field = SERVER_PS_OUT_PARAMS then ''SERVER_PS_OUT_PARAMS''
      else ''('' @ decimal (unat field) @ '')'')"

text \<open>The loop of StatusString, lines 574 to 609.\<close>

partial_function (option) statusLoop ::
  "nat \<Rightarrow> 16 word \<Rightarrow> string list \<Rightarrow> string list option" where
  "statusLoop i status' stats =
     (if status' \<noteq> 0 then
        (let field = (push_bit i 1 :: 16 word)
         in if status' AND field = 0 then statusLoop (Suc i) status' stats
            else statusLoop (Suc i) (status' XOR field) (stats @ [statusName field]))
      else Some stats)"

definition StatusString :: "'n Conn \<Rightarrow> string option" where
  "StatusString c =
     map_option (\<lambda>stats. Join stats ''|'') (statusLoop 0 (status c) [])"

text \<open>
  Reading a rendered flag set back, as the specification asks of a round trip: the string
  is split at the separator, each name is looked up in the bit table, a name of the form
  \<^verbatim>\<open>(n)\<close> stands for the number \<open>n\<close>, and the bits are joined with OR. The empty string
  is the empty set.
\<close>

definition capabilityTable :: "(32 word \<times> string) list" where
  "capabilityTable =
     [
      (CLIENT_LONG_PASSWORD, ''CLIENT_LONG_PASSWORD''),
      (CLIENT_FOUND_ROWS, ''CLIENT_FOUND_ROWS''),
      (CLIENT_LONG_FLAG, ''CLIENT_LONG_FLAG''),
      (CLIENT_CONNECT_WITH_DB, ''CLIENT_CONNECT_WITH_DB''),
      (CLIENT_NO_SCHEMA, ''CLIENT_NO_SCHEMA''),
      (CLIENT_COMPRESS, ''CLIENT_COMPRESS''),
      (CLIENT_ODBC, ''CLIENT_ODBC''),
      (CLIENT_LOCAL_FILES, ''CLIENT_LOCAL_FILES''),
      (CLIENT_IGNORE_SPACE, ''CLIENT_IGNORE_SPACE''),
      (CLIENT_PROTOCOL_41, ''CLIENT_PROTOCOL_41''),
      (CLIENT_INTERACTIVE, ''CLIENT_INTERACTIVE''),
      (CLIENT_SSL, ''CLIENT_SSL''),
      (CLIENT_IGNORE_SIGPIPE, ''CLIENT_IGNORE_SIGPIPE''),
      (CLIENT_TRANSACTIONS, ''CLIENT_TRANSACTIONS''),
      (CLIENT_RESERVED, ''CLIENT_RESERVED''),
      (CLIENT_SECURE_CONNECTION, ''CLIENT_SECURE_CONNECTION''),
      (CLIENT_MULTI_STATEMENTS, ''CLIENT_MULTI_STATEMENTS''),
      (CLIENT_MULTI_RESULTS, ''CLIENT_MULTI_RESULTS''),
      (CLIENT_PS_MULTI_RESULTS, ''CLIENT_PS_MULTI_RESULTS''),
      (CLIENT_PLUGIN_AUTH, ''CLIENT_PLUGIN_AUTH''),
      (CLIENT_CONNECT_ATTRS, ''CLIENT_CONNECT_ATTRS''),
      (CLIENT_PLUGIN_AUTH_LENENC_CLIENT_DATA, ''CLIENT_PLUGIN_AUTH_LENENC_CLIENT_DATA''),
      (CLIENT_CAN_HANDLE_EXPIRED_PASSWORDS, ''CLIENT_CAN_HANDLE_EXPIRED_PASSWORDS''),
      (CLIENT_SESSION_TRACK, ''CLIENT_SESSION_TRACK''),
      (CLIENT_DEPRECATE_EOF, ''CLIENT_DEPRECATE_EOF''),
      (CLIENT_OPTIONAL_RESULTSET_METADATA, ''CLIENT_OPTIONAL_RESULTSET_METADATA''),
      (CLIENT_ZSTD_COMPRESSION_ALGORITHM, ''CLIENT_ZSTD_COMPRESSION_ALGORITHM''),
      (CLIENT_QUERY_ATTRIBUTES, ''CLIENT_QUERY_ATTRIBUTES''),
      (MULTI_FACTOR_AUTHENTICATION, ''MULTI_FACTOR_AUTHENTICATION''),
      (CLIENT_CAPABILITY_EXTENSION, ''CLIENT_CAPABILITY_EXTENSION''),
      (CLIENT_SSL_VERIFY_SERVER_CERT, ''CLIENT_SSL_VERIFY_SERVER_CERT''),
      (CLIENT_REMEMBER_OPTIONS, ''CLIENT_REMEMBER_OPTIONS'')]"

definition statusTable :: "(16 word \<times> string) list" where
  "statusTable =
     [
      (SERVER_STATUS_IN_TRANS, ''SERVER_STATUS_IN_TRANS''),
      (SERVER_STATUS_AUTOCOMMIT, ''SERVER_STATUS_AUTOCOMMIT''),
      (SERVER_MORE_RESULTS_EXISTS, ''SERVER_MORE_RESULTS_EXISTS''),
      (SERVER_STATUS_NO_GOOD_INDEX_USED, ''SERVER_STATUS_NO_GOOD_INDEX_USED''),
      (SERVER_STATUS_NO_INDEX_USED, ''SERVER_STATUS_NO_INDEX_USED''),
      (SERVER_STATUS_CURSOR_EXISTS, ''SERVER_STATUS_CURSOR_EXISTS''),
      (SERVER_STATUS_LAST_ROW_SEND, ''SERVER_STATUS_LAST_ROW_SEND''),
      (SERVER_STATUS_DB_DROPPED, ''SERVER_STATUS_DB_DROPPED''),
      (SERVER_STATUS_NO_BACKSLASH_ESCAPED, ''SERVER_STATUS_NO_BACKSLASH_ESCAPED''),
      (SERVER_STATUS_METADATA_CHANGED, ''SERVER_STATUS_METADATA_CHANGED''),
      (SERVER_QUERY_WAS_SLOW, ''SERVER_QUERY_WAS_SLOW''),
      (SERVER_PS_OUT_PARAMS, ''SERVER_PS_OUT_PARAMS'')]"

fun Split :: "string \<Rightarrow> char \<Rightarrow> string list" where
  "Split [] sep = [[]]"
| "Split (x # xs) sep =
     (if x = sep then [] # Split xs sep
      else (case Split xs sep of
              [] \<Rightarrow> [[x]]
            | y # ys \<Rightarrow> (x # y) # ys))"

fun digitValue :: "char \<Rightarrow> nat option" where
  "digitValue ch =
     (if ch = CHR ''0'' then Some 0 else if ch = CHR ''1'' then Some 1
      else if ch = CHR ''2'' then Some 2 else if ch = CHR ''3'' then Some 3
      else if ch = CHR ''4'' then Some 4 else if ch = CHR ''5'' then Some 5
      else if ch = CHR ''6'' then Some 6 else if ch = CHR ''7'' then Some 7
      else if ch = CHR ''8'' then Some 8 else if ch = CHR ''9'' then Some 9
      else None)"

fun parseDigits :: "nat \<Rightarrow> string \<Rightarrow> nat option" where
  "parseDigits acc [] = Some acc"
| "parseDigits acc (ch # rest) =
     (case digitValue ch of
        None \<Rightarrow> None
      | Some d \<Rightarrow> parseDigits (acc * 10 + d) rest)"

definition parseNumeric :: "string \<Rightarrow> nat option" where
  "parseNumeric name =
     (case name of
        [] \<Rightarrow> None
      | ch # rest \<Rightarrow>
          if ch = CHR ''('' \<and> rest \<noteq> [] \<and> last rest = CHR '')'' \<and> butlast rest \<noteq> []
          then parseDigits 0 (butlast rest) else None)"

fun lookupName :: "('a \<times> string) list \<Rightarrow> string \<Rightarrow> 'a option" where
  "lookupName [] name = None"
| "lookupName ((flag, n) # rest) name =
     (if n = name then Some flag else lookupName rest name)"

definition parseFlag :: "('a::len word \<times> string) list \<Rightarrow> string \<Rightarrow> 'a word option" where
  "parseFlag table name =
     (case lookupName table name of
        Some flag \<Rightarrow> Some flag
      | None \<Rightarrow> map_option word_of_nat (parseNumeric name))"

fun joinFlags :: "'a::len word option list \<Rightarrow> 'a word option" where
  "joinFlags [] = Some 0"
| "joinFlags (None # rest) = None"
| "joinFlags (Some flag # rest) = map_option (\<lambda>mask. flag OR mask) (joinFlags rest)"

definition parseFlags :: "('a::len word \<times> string) list \<Rightarrow> string \<Rightarrow> 'a word option" where
  "parseFlags table s =
     (if s = [] then Some 0 else joinFlags (map (parseFlag table) (Split s CHR ''|'')))"

text \<open>
  What the round trip asks of the name of bit \<open>j\<close>: it reads back as that bit, it does not
  contain the separator, and it is not empty.
\<close>

definition capabilityNameParses :: "nat \<Rightarrow> bool" where
  "capabilityNameParses j =
     (parseFlag capabilityTable (capabilityName (2 ^ j)) = Some (2 ^ j)
      \<and> CHR ''|'' \<notin> set (capabilityName (2 ^ j)) \<and> capabilityName (2 ^ j) \<noteq> [])"

definition statusNameParses :: "nat \<Rightarrow> bool" where
  "statusNameParses j =
     (parseFlag statusTable (statusName (2 ^ j)) = Some (2 ^ j)
      \<and> CHR ''|'' \<notin> set (statusName (2 ^ j)) \<and> statusName (2 ^ j) \<noteq> [])"

subsection \<open>Frame conditions on the collaborators\<close>



definition keepsDB :: "('n Conn \<Rightarrow> 'n Conn) \<Rightarrow> bool" where
  "keepsDB f = (\<forall>c. db (f c) = db c)"

subsection \<open>A simulated transport\<close>

text \<open>
  A concrete environment on which the operations can be run: the raw connection records
  how it was dialled, the commands written to it, and whether it was closed; writes fail
  on a broken or closed connection, and a refusing server answers every command with an
  error. The greeting stores the server's version and capabilities in the session.
\<close>

record wire =
  wire_network :: string
  wire_address :: string
  wire_timeout :: duration
  wire_sent :: "(byte \<times> string) list"
  wire_broken :: bool
  wire_refusing :: bool
  wire_closed :: bool

definition wireWrite :: "byte \<Rightarrow> string \<Rightarrow> wire Conn \<Rightarrow> error option \<times> wire Conn" where
  "wireWrite cmd arg c =
     (case pconn c of
        None \<Rightarrow> (Some (Failure ''no transport''), c)
      | Some p \<Rightarrow>
          (if wire_broken (netConn p) \<or> wire_closed (netConn p)
           then (Some (Failure ''write failed''), c)
           else (None, c\<lparr>pconn := Some (p\<lparr>netConn := (netConn p)
                   \<lparr>wire_sent := wire_sent (netConn p) @ [(cmd, arg)]\<rparr>\<rparr>)\<rparr>)))"

definition wireReply :: "wire Conn \<Rightarrow> (Result option \<times> error option) \<times> wire Conn" where
  "wireReply c =
     (case pconn c of
        None \<Rightarrow> ((None, Some (Failure ''no transport'')), c)
      | Some p \<Rightarrow>
          (if wire_refusing (netConn p) then ((None, Some (Failure ''server error'')), c)
           else ((Some (NewResult (NewResultset 0)), None), c\<lparr>status := 2\<rparr>)))"

definition wireClose :: "wire packet_Conn option \<Rightarrow> error option \<times> wire packet_Conn option" where
  "wireClose q =
     (case q of
        None \<Rightarrow> (None, None)
      | Some p \<Rightarrow> (None, Some (p\<lparr>Sequence := 0, netConn := (netConn p)\<lparr>wire_closed := True\<rparr>\<rparr>)))"

definition wireGreeting :: "32 word \<Rightarrow> wire Conn \<Rightarrow> error option \<times> wire Conn" where
  "wireGreeting serverCaps c =
     (None, c\<lparr>serverVersion := ''8.0.33'', capability := serverCaps, connectionID := 7\<rparr>)"

definition wireCollation :: "string \<Rightarrow> error + Collation" where
  "wireCollation name =
     (if name = ''utf8mb4_general_ci'' then Inr \<lparr>ID = 45\<rparr>
      else if name = ''utf8mb4_zh_0900_as_cs'' then Inr \<lparr>ID = 308\<rparr>
      else Inl (Failure ''unknown collation''))"

definition wireDial :: "net_Dialer \<Rightarrow> go_context \<Rightarrow> string \<Rightarrow> string \<Rightarrow> error + wire" where
  "wireDial d ctx network addr =
     Inr \<lparr>wire_network = network, wire_address = addr, wire_timeout = Timeout d,
          wire_sent = [], wire_broken = False, wire_refusing = False, wire_closed = False\<rparr>"

definition wireEnv :: "32 word \<Rightarrow> wire env" where
  "wireEnv serverCaps =
     \<lparr>GOOS = ''linux'', GOARCH = ''amd64'', runtime_Version = ''go1.22'',
      DialContext = wireDial,
      netClose = (\<lambda>w. (None, w\<lparr>wire_closed := True\<rparr>)),
      packetClose = wireClose,
      readInitialHandshake = wireGreeting serverCaps,
      writeAuthHandshake = wireWrite 0 ''auth'',
      handleAuthResult = (\<lambda>c. (None, c)),
      writeCommand = (\<lambda>cmd. wireWrite cmd []),
      writeCommandStr = wireWrite,
      readOK = wireReply,
      readResult = (\<lambda>b. wireReply),
      GetCollationByName = wireCollation\<rparr>"

definition requestCompression :: "wire Option" where
  "requestCompression c = (None, SetCapability CLIENT_COMPRESS c)"

text \<open>What a connect entry point left behind: the session, its codec, the raw connection.\<close>

definition session :: "'n connect_result \<Rightarrow> 'n Conn option" where
  "session r = (case r of Connected c \<Rightarrow> Some c | Refused err w \<Rightarrow> None | Panicked \<Rightarrow> None)"


definition dialled :: "'n connect_result \<Rightarrow> 'n option" where
  "dialled r =
     (case r of
        Connected c \<Rightarrow> map_option netConn (pconn c)
      | Refused err w \<Rightarrow> w
      | Panicked \<Rightarrow> None)"


text \<open>A dialer that refuses every connection and reports the network it was asked for.\<close>

definition refusingDialer :: "'n Dialer" where
  "refusingDialer ctx network addr = Inl (Failure network)"

text \<open>
  An established session over a connection that may be broken (every write fails) and
  whose server may be refusing (every command is answered with an error).
\<close>

definition wireSession :: "bool \<Rightarrow> bool \<Rightarrow> wire Conn" where
  "wireSession broken refusing =
     new_Conn\<lparr>pconn := Some (NewConnWithTimeout
                 \<lparr>wire_network = ''tcp'', wire_address = ''127.0.0.1:3306'',
                  wire_timeout = 10 * Second, wire_sent = [], wire_broken = broken,
                  wire_refusing = refusing, wire_closed = False\<rparr> 0 0 defaultBufferSize),
              db := ''test'', serverVersion := ''8.0.33''\<rparr>"

definition wireClosed :: "wire Conn \<Rightarrow> bool option" where
  "wireClosed c = map_option wire_closed (map_option netConn (pconn c))"


section \<open>Properties\<close>

subsection \<open>Unfolding and frame lemmas\<close>

lemmas wire_defs = wireEnv_def wireDial_def wireGreeting_def wireWrite_def wireReply_def
  wireClose_def wireCollation_def requestCompression_def wireSession_def wireClosed_def

lemmas connect_defs = ConnectWithTimeout_def ConnectWithContext_def ConnectWithDialer_def
  getNetProto_def new_Conn_def handshake_def newTransport_def NewConnWithTimeout_def
  NewTLSConnWithTimeout_def enableCompression_def setCompression_def setNames_def exec_def
  Close_def SetCapability_def

lemma Contains_slash: "Contains addr ''/'' = (CHR ''/'' \<in> set addr)"
  by (induction addr) (auto elim: hasPrefix.elims)











subsection \<open>Compression after connection setup\<close>




subsection \<open>The timeout of ConnectWithTimeout\<close>

text \<open>
  C5 (the code departs from the claim). ConnectWithTimeout called with a timeout of one
  second dials with a timeout of ten seconds; ConnectWithContext called with one second
  dials with one second.
\<close>

theorem ConnectWithTimeout_dials_ten_seconds:
  "map_option wire_timeout (dialled (ConnectWithTimeout (wireEnv 0) ''127.0.0.1:3306''
      ''root'' ''pw'' ''test'' Second [])) = Some (10 * Second)
   \<and> map_option wire_timeout (dialled (ConnectWithContext (wireEnv 0) Background
      ''127.0.0.1:3306'' ''root'' ''pw'' ''test'' Second [])) = Some Second"
  by (simp add: connect_defs wire_defs dialled_def Let_def)

subsection \<open>Quit\<close>

text \<open>
  C7 (the code departs from the claim). On a session whose connection fails every write,
  Quit returns the write error and leaves the session as it was: the connection is not
  closed. On a sound connection Quit closes it.
\<close>

theorem Quit_leaves_open_when_write_fails:
  "Quit (wireEnv 0) (wireSession True False) = (Some (Failure ''write failed''), wireSession True False)
   \<and> wireClosed (snd (Quit (wireEnv 0) (wireSession True False))) = Some False
   \<and> wireClosed (snd (Quit (wireEnv 0) (wireSession False False))) = Some True"
  by (simp add: Quit_def connect_defs wire_defs)

subsection \<open>Network selection\<close>

text \<open>
  C9. With no network given, the network handed to the dialer is unix exactly when the
  address contains a slash and tcp otherwise; a network that is given is handed on
  unchanged. A refusing dialer reports the network it was asked for; on the simulated
  transport the connection and the session record it.
\<close>

theorem network_selection:
  "getNetProto addr = (if CHR ''/'' \<in> set addr then ''unix'' else ''tcp'')
   \<and> ConnectWithDialer E ctx [] addr usr passwd dbName refusingDialer options
       = Refused (Trace (Failure (if CHR ''/'' \<in> set addr then ''unix'' else ''tcp''))) None
   \<and> (network \<noteq> [] \<longrightarrow>
        ConnectWithDialer E ctx network addr usr passwd dbName refusingDialer options
          = Refused (Trace (Failure network)) None)
   \<and> map_option wire_network (dialled (ConnectWithDialer (wireEnv caps) ctx network addr
        usr passwd dbName (wireDial d) []))
       = Some (if network = [] then (if CHR ''/'' \<in> set addr then ''unix'' else ''tcp'')
               else network)
   \<and> map_option proto (session (ConnectWithDialer (wireEnv caps) ctx network addr
        usr passwd dbName (wireDial d) []))
       = Some (if network = [] then (if CHR ''/'' \<in> set addr then ''unix'' else ''tcp'')
               else network)"
  by (simp add: connect_defs wire_defs Contains_slash refusingDialer_def dialled_def
      session_def Let_def)

theorem network_selection_witness:
  "''unix'' \<noteq> [] \<and>
   ConnectWithDialer (wireEnv 0) Background ''unix'' ''127.0.0.1:3306'' ''root'' ''pw''
     ''test'' refusingDialer [] = Refused (Trace (Failure ''unix'')) None
   \<and> getNetProto ''/var/run/mysqld.sock'' = ''unix''
   \<and> getNetProto ''127.0.0.1:3306'' = ''tcp''"
  using network_selection [of "''/var/run/mysqld.sock''" "wireEnv 0" Background "''root''"
      "''pw''" "''test''" "[]" "''unix''" 0 "\<lparr>Timeout = Second\<rparr>"]
    network_selection [of "''127.0.0.1:3306''" "wireEnv 0" Background "''root''"
      "''pw''" "''test''" "[]" "''unix''" 0 "\<lparr>Timeout = Second\<rparr>"]
  by simp

subsection \<open>SetCollation\<close>

text \<open>
  C3. Once a server version is recorded, SetCollation returns an error for every name and
  leaves the session, and so its collation, unchanged; while the server version is empty
  it succeeds and stores the name as the collation.
\<close>

theorem SetCollation_only_before_handshake:
  "(serverVersion c \<noteq> [] \<longrightarrow>
      (\<exists>err. fst (SetCollation name c) = Some err) \<and> snd (SetCollation name c) = c)
   \<and> (serverVersion c = [] \<longrightarrow>
      SetCollation name c = (None, c\<lparr>collation := name\<rparr>)
      \<and> collation (snd (SetCollation name c)) = name)"
  by (simp add: SetCollation_def)

theorem SetCollation_only_before_handshake_witness:
  "serverVersion (wireSession False False) \<noteq> []
   \<and> (\<exists>err. fst (SetCollation ''utf8mb4_bin'' (wireSession False False)) = Some err)
   \<and> snd (SetCollation ''utf8mb4_bin'' (wireSession False False)) = wireSession False False
   \<and> serverVersion (new_Conn :: wire Conn) = []
   \<and> SetCollation ''utf8mb4_bin'' (new_Conn :: wire Conn)
       = (None, new_Conn\<lparr>collation := ''utf8mb4_bin''\<rparr>)"
  using SetCollation_only_before_handshake [of "wireSession False False" "''utf8mb4_bin''"]
    SetCollation_only_before_handshake [of "new_Conn :: wire Conn" "''utf8mb4_bin''"]
  by (simp add: wireSession_def new_Conn_def)

subsection \<open>UseDB\<close>

lemma UseDB_success_db: "fst (UseDB E name c) = None \<Longrightarrow> db (snd (UseDB E name c)) = name"
  by (auto simp: UseDB_def split: if_splits prod.splits option.splits)

lemma UseDB_twice:
  "fst (UseDB E name c) = None \<Longrightarrow>
   UseDB E name (snd (UseDB E name c)) = (None, snd (UseDB E name c))"
  using UseDB_success_db [of E name c]
  by (simp add: UseDB_def [of E name "snd (UseDB E name c)"])

text \<open>
  C4. When the name is the selected database, UseDB returns nil and the session, transport
  included, is unchanged whatever the environment: nothing is written. Otherwise it
  writes an init-db command with the name; when the write fails, or the write succeeds and
  reading the OK fails, it returns the traced error and does not assign the database; when
  both succeed it assigns the name. A second UseDB with the same name after a successful
  one returns nil and changes nothing. As long as the two collaborators leave the database
  field alone, the field after UseDB is the name when UseDB succeeds and what it was
  when UseDB fails.
\<close>

theorem UseDB_selects:
  "(db c = name \<longrightarrow> UseDB E name c = (None, c))
   \<and> (db c \<noteq> name \<longrightarrow>
        (\<forall>err c1. writeCommandStr E COM_INIT_DB name c = (Some err, c1) \<longrightarrow>
           UseDB E name c = (Some (Trace err), c1))
      \<and> (\<forall>c1 r err c2. writeCommandStr E COM_INIT_DB name c = (None, c1) \<longrightarrow>
           readOK E c1 = ((r, Some err), c2) \<longrightarrow> UseDB E name c = (Some (Trace err), c2))
      \<and> (\<forall>c1 r c2. writeCommandStr E COM_INIT_DB name c = (None, c1) \<longrightarrow>
           readOK E c1 = ((r, None), c2) \<longrightarrow> UseDB E name c = (None, c2\<lparr>db := name\<rparr>)))
   \<and> (fst (UseDB E name c) = None \<longrightarrow>
        UseDB E name (snd (UseDB E name c)) = (None, snd (UseDB E name c)))
   \<and> ((\<forall>cmd arg. keepsDB (\<lambda>x. snd (writeCommandStr E cmd arg x))) \<longrightarrow>
        keepsDB (\<lambda>x. snd (readOK E x)) \<longrightarrow>
        db (snd (UseDB E name c)) = (if fst (UseDB E name c) = None then name else db c))"
proof (intro conjI impI allI)
  assume "\<forall>cmd arg. keepsDB (\<lambda>x. snd (writeCommandStr E cmd arg x))"
    and "keepsDB (\<lambda>x. snd (readOK E x))"
  then have w: "\<And>cmd arg x. db (snd (writeCommandStr E cmd arg x)) = db x"
    and r: "\<And>x. db (snd (readOK E x)) = db x"
    by (simp_all add: keepsDB_def)
  show "db (snd (UseDB E name c)) = (if fst (UseDB E name c) = None then name else db c)"
  proof (cases "db c = name")
    case True
    then show ?thesis by (simp add: UseDB_def)
  next
    case False
    obtain e1 c1 where W: "writeCommandStr E COM_INIT_DB name c = (e1, c1)"
      by (cases "writeCommandStr E COM_INIT_DB name c")
    obtain r2 e2 c2 where R: "readOK E c1 = ((r2, e2), c2)"
      by (cases "readOK E c1") auto
    from w [of COM_INIT_DB name c] W have d1: "db c1 = db c" by simp
    from r [of c1] R have d2: "db c2 = db c1" by simp
    show ?thesis using False W R d1 d2
      by (cases e1; cases e2) (simp_all add: UseDB_def)
  qed
next
  assume "fst (UseDB E name c) = None"
  then show "UseDB E name (snd (UseDB E name c)) = (None, snd (UseDB E name c))"
    by (rule UseDB_twice)
qed (simp_all add: UseDB_def)

theorem UseDB_selects_witness:
  "UseDB (wireEnv 0) ''test'' (wireSession False False) = (None, wireSession False False)
   \<and> db (wireSession False False) \<noteq> ''shop''
   \<and> fst (UseDB (wireEnv 0) ''shop'' (wireSession True False))
       = Some (Trace (Failure ''write failed''))
   \<and> db (snd (UseDB (wireEnv 0) ''shop'' (wireSession True False))) = ''test''
   \<and> fst (UseDB (wireEnv 0) ''shop'' (wireSession False True))
       = Some (Trace (Failure ''server error''))
   \<and> db (snd (UseDB (wireEnv 0) ''shop'' (wireSession False True))) = ''test''
   \<and> fst (UseDB (wireEnv 0) ''shop'' (wireSession False False)) = None
   \<and> db (snd (UseDB (wireEnv 0) ''shop'' (wireSession False False))) = ''shop''
   \<and> map_option wire_sent (map_option netConn
        (pconn (snd (UseDB (wireEnv 0) ''shop'' (wireSession False False)))))
       = Some [(COM_INIT_DB, ''shop'')]
   \<and> UseDB (wireEnv 0) ''shop'' (snd (UseDB (wireEnv 0) ''shop'' (wireSession False False)))
       = (None, snd (UseDB (wireEnv 0) ''shop'' (wireSession False False)))"
  using UseDB_selects [of "wireSession False False" "''test''" "wireEnv 0"]
    UseDB_selects [of "wireSession True False" "''shop''" "wireEnv 0"]
    UseDB_selects [of "wireSession False True" "''shop''" "wireEnv 0"]
    UseDB_selects [of "wireSession False False" "''shop''" "wireEnv 0"]
  by (simp add: UseDB_def wire_defs new_Conn_def NewConnWithTimeout_def)

subsection \<open>The read loop of ExecuteMultiple\<close>

lemmas script_defs = scripted_def script_def threeStatements_def twoStatements_def
  infileRequest_def oneThenClosed_def okMore_def okLast_def NewResult_def NewResultset_def

lemmas loop_defs = classify_def OK_HEADER_def ERR_HEADER_def LocalInFile_HEADER_def
  SERVER_MORE_RESULTS_EXISTS_def delivery_def continuesAfter_def stopsAfter_def goesOn_def
  firstStop_def callsUpTo_def readsUpTo_def isPacket_def

lemma readLoop_goesOn:
  "goesOn (srv i) \<Longrightarrow> readLoop srv i made = readLoop srv (Suc i) (made @ delivery (srv i))"
  by (subst readLoop.simps)
    (auto simp: goesOn_def delivery_def continuesAfter_def Let_def
      split: response.splits list.splits option.splits)

lemma readLoop_stop:
  "\<not> goesOn (srv i) \<Longrightarrow>
   readLoop srv i made =
     Some (exitAt (srv i), made @ delivery (srv i), if isPacket (srv i) then Suc i else i)"
  by (subst readLoop.simps)
    (auto simp: goesOn_def delivery_def continuesAfter_def stopsAfter_def exitAt_def isPacket_def
      Let_def split: response.splits list.splits option.splits)

lemma goesOn_isPacket: "goesOn rsp \<Longrightarrow> isPacket rsp"
  by (auto simp: goesOn_def delivery_def isPacket_def split: response.splits)

lemma readLoop_prefix:
  "(\<forall>j. i \<le> j \<and> j < i + n \<longrightarrow> goesOn (srv j)) \<Longrightarrow>
   readLoop srv i made
     = readLoop srv (i + n) (made @ concat (map (\<lambda>j. delivery (srv j)) [i..<i + n]))"
proof (induction n arbitrary: i made)
  case 0
  then show ?case by simp
next
  case (Suc n)
  have g: "goesOn (srv i)" using Suc.prems by simp
  have rest: "\<forall>j. Suc i \<le> j \<and> j < Suc i + n \<longrightarrow> goesOn (srv j)" using Suc.prems by simp
  have "[i..<i + Suc n] = i # [Suc i..<Suc i + n]" by (simp add: upt_conv_Cons)
  then show ?case
    using readLoop_goesOn [of srv i made, OF g] Suc.IH [OF rest, of "made @ delivery (srv i)"]
    by simp
qed

lemma readLoop_firstStop:
  assumes "firstStop srv k"
  shows "readLoop srv 0 [] =
     Some (exitAt (srv k), callsUpTo srv (Suc k), readsUpTo srv (Suc k))"
proof -
  have pre: "\<forall>j. 0 \<le> j \<and> j < 0 + k \<longrightarrow> goesOn (srv j)"
    using assms by (simp add: firstStop_def list_all_iff)
  have stop: "\<not> goesOn (srv k)" using assms by (simp add: firstStop_def)
  have "filter (\<lambda>j. isPacket (srv j)) [0..<k] = [0..<k]"
    using pre by (auto intro!: filter_True dest: goesOn_isPacket)
  then have r: "readsUpTo srv (Suc k) = (if isPacket (srv k) then Suc k else k)"
    by (simp add: readsUpTo_def)
  show ?thesis
    using readLoop_prefix [OF pre, of "[]"] readLoop_stop [of srv k, OF stop] r
    by (simp add: callsUpTo_def)
qed

lemma goesOnE:
  assumes "goesOn rsp"
  obtains header rest r e result where "rsp = Packet (header # rest) r e"
    and "classify header (r, e) = (Some result, None)"
    and "Status result AND SERVER_MORE_RESULTS_EXISTS \<noteq> 0"
proof (cases rsp)
  case (ReadFails err)
  with assms show ?thesis by (simp add: goesOn_def delivery_def)
next
  case (Packet bs r e)
  show ?thesis
  proof (cases bs)
    case Nil
    with Packet assms show ?thesis by (simp add: goesOn_def delivery_def)
  next
    case (Cons header rest)
    obtain x y where c: "classify header (r, e) = (x, y)" by (cases "classify header (r, e)")
    with Packet Cons assms have "y = None" and "x \<noteq> None"
      by (auto simp: goesOn_def delivery_def continuesAfter_def split: option.splits)
    then obtain result where "x = Some result" by (cases x) auto
    with Packet Cons assms c \<open>y = None\<close> show ?thesis
      by (intro that [of header rest r e result])
        (simp_all add: goesOn_def delivery_def continuesAfter_def)
  qed
qed



lemma length_concat_singletons:
  "(\<forall>x\<in>set xs. length (f x) = 1) \<Longrightarrow> length (concat (map f xs)) = length xs"
  by (induction xs) simp_all

lemma firstStop_counts:
  assumes "firstStop srv k"
  shows "length (callsUpTo srv (Suc k)) = k + length (delivery (srv k))"
    and "readsUpTo srv (Suc k) = (if isPacket (srv k) then Suc k else k)"
proof -
  have pre: "\<forall>j\<in>set [0..<k]. goesOn (srv j)"
    using assms by (simp add: firstStop_def list_all_iff)
  have "\<forall>j\<in>set [0..<k]. length (delivery (srv j)) = 1"
  proof
    fix j assume "j \<in> set [0..<k]"
    with pre have "goesOn (srv j)" by blast
    then show "length (delivery (srv j)) = 1"
      by (rule goesOnE) (simp add: delivery_def)
  qed
  then have "length (concat (map (\<lambda>j. delivery (srv j)) [0..<k])) = length [0..<k]"
    by (rule length_concat_singletons)
  then show "length (callsUpTo srv (Suc k)) = k + length (delivery (srv k))"
    by (simp add: callsUpTo_def)
  have "filter (\<lambda>j. isPacket (srv j)) [0..<k] = [0..<k]"
    using pre by (auto intro!: filter_True dest: goesOn_isPacket)
  then show "readsUpTo srv (Suc k) = (if isPacket (srv k) then Suc k else k)"
    by (simp add: readsUpTo_def)
qed


lemma ExecuteMultiple_firstStop:
  assumes "send S COM_QUERY query = None" and "firstStop (response S) k"
  shows "ExecuteMultiple S query =
     Some \<lparr>returned = (case exitAt (response S k) of
                         Break \<Rightarrow> Some (Some doneResult, None)
                       | ReadError err \<Rightarrow> Some (None, Some err)
                       | Panic \<Rightarrow> None),
           calls = callsUpTo (response S) (Suc k),
           consumed = readsUpTo (response S) (Suc k)\<rparr>"
  using assms(1) readLoop_firstStop [OF assms(2)]
  by (cases "exitAt (response S k)") (simp_all add: ExecuteMultiple_def)


lemma stop_at_packet:
  assumes "list_all (\<lambda>j. goesOn (srv j)) [0..<k]"
    and "srv k = Packet (header # rest) r e"
    and "stopsAfter (classify header (r, e))"
  shows "firstStop srv k" and "exitAt (srv k) = Break"
    and "callsUpTo srv (Suc k) = callsUpTo srv k @ [classify header (r, e)]"
    and "readsUpTo srv (Suc k) = Suc k"
proof -
  have "\<not> continuesAfter (classify header (r, e))"
    using assms(3) by (auto simp: stopsAfter_def continuesAfter_def split: option.splits)
  then show f: "firstStop srv k"
    using assms(1,2) by (simp add: firstStop_def goesOn_def delivery_def)
  show "exitAt (srv k) = Break" using assms(2,3) by (simp add: exitAt_def)
  show "callsUpTo srv (Suc k) = callsUpTo srv k @ [classify header (r, e)]"
    using assms(2) by (simp add: callsUpTo_def delivery_def)
  show "readsUpTo srv (Suc k) = Suc k"
    using firstStop_counts(2) [OF f] assms(2) by (simp add: isPacket_def)
qed





text \<open>
  C8. When the loop reaches a response that is classified without error and whose result
  has no more-results bit, ExecuteMultiple returns the done result and a nil error. The done
  result is not nil, has no fields and no rows, zero status, warnings, insert id and affected
  rows, and its resultset is marked streaming-multiple and done.
\<close>

theorem ExecuteMultiple_done_result:
  assumes "send S COM_QUERY query = None"
    and "list_all (\<lambda>j. goesOn (response S j)) [0..<k]"
    and "response S k = Packet (header # rest) r e"
    and "classify header (r, e) = (Some result, None)"
    and "Status result AND SERVER_MORE_RESULTS_EXISTS = 0"
  shows "ExecuteMultiple S query =
       Some \<lparr>returned = Some (Some doneResult, None),
             calls = callsUpTo (response S) k @ [(Some result, None)],
             consumed = Suc k\<rparr>
     \<and> resultset doneResult =
         Some \<lparr>Fields = [], Values = [], Streaming = StreamingMultiple, StreamingDone = True\<rparr>
     \<and> Status doneResult = 0 \<and> Warnings doneResult = 0
     \<and> InsertId doneResult = 0 \<and> AffectedRows doneResult = 0"
proof -
  have stop: "stopsAfter (classify header (r, e))"
    using assms(4,5) by (simp add: stopsAfter_def)
  note at = stop_at_packet [OF assms(2,3) stop]
  show ?thesis
    using ExecuteMultiple_firstStop [OF assms(1) at(1)] at(2,3,4) assms(4)
    by (simp add: doneResult_def NewResult_def NewResultset_def)
qed

theorem ExecuteMultiple_done_result_witness:
  "ExecuteMultiple (scripted twoStatements) ''select 1; select 2''
     = Some \<lparr>returned = Some (Some doneResult, None),
             calls = [(Some okMore, None), (Some okLast, None)], consumed = 2\<rparr>
   \<and> Status okLast AND SERVER_MORE_RESULTS_EXISTS = 0"
proof -
  let ?S = "scripted twoStatements"
  have "ExecuteMultiple ?S ''select 1; select 2'' =
       Some \<lparr>returned = Some (Some doneResult, None),
             calls = callsUpTo (response ?S) 1 @ [(Some okLast, None)],
             consumed = Suc 1\<rparr>
     \<and> resultset doneResult =
         Some \<lparr>Fields = [], Values = [], Streaming = StreamingMultiple, StreamingDone = True\<rparr>
     \<and> Status doneResult = 0 \<and> Warnings doneResult = 0
     \<and> InsertId doneResult = 0 \<and> AffectedRows doneResult = 0"
    by (rule ExecuteMultiple_done_result [where header = 0 and rest = "[0x00, 0x00, 0x02, 0x00]"
          and r = "Some okLast" and e = None])
      (simp_all add: script_defs loop_defs)
  then show ?thesis by (simp add: script_defs loop_defs)
qed



subsection \<open>Rendering and reading back the flag sets\<close>

lemma and_bit_zero: "(w AND 2 ^ i = 0) = (\<not> bit w i)" for w :: "'a::len word"
proof
  assume z: "w AND 2 ^ i = 0"
  show "\<not> bit w i"
  proof
    assume b: "bit w i"
    then have "i < LENGTH('a)" by (rule bit_imp_le_length)
    with b have "bit (w AND 2 ^ i) i" by (simp add: bit_and_iff bit_exp_iff)
    with z show False by simp
  qed
next
  assume "\<not> bit w i"
  then show "w AND 2 ^ i = 0"
    by (intro bit_eqI) (auto simp: bit_and_iff bit_exp_iff)
qed

lemma bit_xor_flag: "bit (w XOR 2 ^ i) j = (if j = i then \<not> bit w i else bit w j)"
  if "bit w i" for w :: "'a::len word"
proof -
  from that have "i < LENGTH('a)" by (rule bit_imp_le_length)
  then show ?thesis by (auto simp: bit_xor_iff bit_exp_iff)
qed

lemma no_bits_zero: "(\<forall>j<LENGTH('a). \<not> bit w j) \<Longrightarrow> w = 0" for w :: "'a::len word"
  by (intro bit_eqI) (auto dest: bit_imp_le_length)

lemma capabilityLoop_scan:
  "i \<le> 32 \<Longrightarrow> (\<forall>j<i. \<not> bit w j) \<Longrightarrow>
   capabilityLoop i w caps
     = Some (caps @ map (\<lambda>j. capabilityName (2 ^ j)) (filter (bit w) [i..<32]))"
proof (induction "32 - i" arbitrary: i w caps)
  case 0
  then have "i = 32" by simp
  with 0 have "w = 0" by (intro no_bits_zero) simp
  then show ?case using \<open>i = 32\<close> by (subst capabilityLoop.simps) simp
next
  case (Suc n)
  then have i: "i < 32" by simp
  have upt: "[i..<32] = i # [Suc i..<32]" using i by (simp add: upt_conv_Cons)
  show ?case
  proof (cases "w = 0")
    case True
    then show ?thesis by (subst capabilityLoop.simps) simp
  next
    case nz: False
    show ?thesis
    proof (cases "bit w i")
      case False
      have "\<forall>j<Suc i. \<not> bit w j" using Suc.prems(2) False by (auto simp: less_Suc_eq)
      from Suc.hyps(1) [of "Suc i" w caps, OF _ _ this] Suc.hyps(2) i
      have "capabilityLoop (Suc i) w caps
        = Some (caps @ map (\<lambda>j. capabilityName (2 ^ j)) (filter (bit w) [Suc i..<32]))"
        by simp
      then show ?thesis using nz False upt
        by (subst capabilityLoop.simps) (simp add: and_bit_zero Let_def)
    next
      case True
      let ?w = "w XOR 2 ^ i"
      have b: "\<And>j. bit ?w j = (if j = i then \<not> bit w i else bit w j)"
        by (rule bit_xor_flag [OF True])
      have "\<forall>j<Suc i. \<not> bit ?w j" using Suc.prems(2) True by (auto simp: b less_Suc_eq)
      from Suc.hyps(1) [of "Suc i" ?w "caps @ [capabilityName (2 ^ i)]", OF _ _ this]
        Suc.hyps(2) i
      have "capabilityLoop (Suc i) ?w (caps @ [capabilityName (2 ^ i)])
        = Some ((caps @ [capabilityName (2 ^ i)])
            @ map (\<lambda>j. capabilityName (2 ^ j)) (filter (bit ?w) [Suc i..<32]))"
        by simp
      moreover have "filter (bit ?w) [Suc i..<32] = filter (bit w) [Suc i..<32]"
        by (rule filter_cong) (auto simp: b)
      ultimately show ?thesis using nz True upt
        by (subst capabilityLoop.simps) (simp add: and_bit_zero Let_def)
    qed
  qed
qed

lemma statusLoop_scan:
  "i \<le> 16 \<Longrightarrow> (\<forall>j<i. \<not> bit w j) \<Longrightarrow>
   statusLoop i w stats
     = Some (stats @ map (\<lambda>j. statusName (2 ^ j)) (filter (bit w) [i..<16]))"
proof (induction "16 - i" arbitrary: i w stats)
  case 0
  then have "i = 16" by simp
  with 0 have "w = 0" by (intro no_bits_zero) simp
  then show ?case using \<open>i = 16\<close> by (subst statusLoop.simps) simp
next
  case (Suc n)
  then have i: "i < 16" by simp
  have upt: "[i..<16] = i # [Suc i..<16]" using i by (simp add: upt_conv_Cons)
  show ?case
  proof (cases "w = 0")
    case True
    then show ?thesis by (subst statusLoop.simps) simp
  next
    case nz: False
    show ?thesis
    proof (cases "bit w i")
      case False
      have "\<forall>j<Suc i. \<not> bit w j" using Suc.prems(2) False by (auto simp: less_Suc_eq)
      from Suc.hyps(1) [of "Suc i" w stats, OF _ _ this] Suc.hyps(2) i
      have "statusLoop (Suc i) w stats
        = Some (stats @ map (\<lambda>j. statusName (2 ^ j)) (filter (bit w) [Suc i..<16]))"
        by simp
      then show ?thesis using nz False upt
        by (subst statusLoop.simps) (simp add: and_bit_zero Let_def)
    next
      case True
      let ?w = "w XOR 2 ^ i"
      have b: "\<And>j. bit ?w j = (if j = i then \<not> bit w i else bit w j)"
        by (rule bit_xor_flag [OF True])
      have "\<forall>j<Suc i. \<not> bit ?w j" using Suc.prems(2) True by (auto simp: b less_Suc_eq)
      from Suc.hyps(1) [of "Suc i" ?w "stats @ [statusName (2 ^ i)]", OF _ _ this]
        Suc.hyps(2) i
      have "statusLoop (Suc i) ?w (stats @ [statusName (2 ^ i)])
        = Some ((stats @ [statusName (2 ^ i)])
            @ map (\<lambda>j. statusName (2 ^ j)) (filter (bit ?w) [Suc i..<16]))"
        by simp
      moreover have "filter (bit ?w) [Suc i..<16] = filter (bit w) [Suc i..<16]"
        by (rule filter_cong) (auto simp: b)
      ultimately show ?thesis using nz True upt
        by (subst statusLoop.simps) (simp add: and_bit_zero Let_def)
    qed
  qed
qed

lemmas capability_defs =
  CLIENT_LONG_PASSWORD_def CLIENT_FOUND_ROWS_def CLIENT_LONG_FLAG_def
  CLIENT_CONNECT_WITH_DB_def CLIENT_NO_SCHEMA_def CLIENT_COMPRESS_def CLIENT_ODBC_def
  CLIENT_LOCAL_FILES_def CLIENT_IGNORE_SPACE_def CLIENT_PROTOCOL_41_def
  CLIENT_INTERACTIVE_def CLIENT_SSL_def CLIENT_IGNORE_SIGPIPE_def CLIENT_TRANSACTIONS_def
  CLIENT_RESERVED_def CLIENT_SECURE_CONNECTION_def CLIENT_MULTI_STATEMENTS_def
  CLIENT_MULTI_RESULTS_def CLIENT_PS_MULTI_RESULTS_def CLIENT_PLUGIN_AUTH_def
  CLIENT_CONNECT_ATTRS_def CLIENT_PLUGIN_AUTH_LENENC_CLIENT_DATA_def
  CLIENT_CAN_HANDLE_EXPIRED_PASSWORDS_def CLIENT_SESSION_TRACK_def CLIENT_DEPRECATE_EOF_def
  CLIENT_OPTIONAL_RESULTSET_METADATA_def CLIENT_ZSTD_COMPRESSION_ALGORITHM_def
  CLIENT_QUERY_ATTRIBUTES_def MULTI_FACTOR_AUTHENTICATION_def
  CLIENT_CAPABILITY_EXTENSION_def CLIENT_SSL_VERIFY_SERVER_CERT_def
  CLIENT_REMEMBER_OPTIONS_def

lemmas status_defs =
  SERVER_STATUS_IN_TRANS_def SERVER_STATUS_AUTOCOMMIT_def SERVER_MORE_RESULTS_EXISTS_def
  SERVER_STATUS_NO_GOOD_INDEX_USED_def SERVER_STATUS_NO_INDEX_USED_def
  SERVER_STATUS_CURSOR_EXISTS_def SERVER_STATUS_LAST_ROW_SEND_def
  SERVER_STATUS_DB_DROPPED_def SERVER_STATUS_NO_BACKSLASH_ESCAPED_def
  SERVER_STATUS_METADATA_CHANGED_def SERVER_QUERY_WAS_SLOW_def SERVER_PS_OUT_PARAMS_def

lemma Split_nonempty: "Split s sep \<noteq> []"
  by (induction s) (auto split: list.splits)

lemma Split_no_sep: "sep \<notin> set x \<Longrightarrow> Split x sep = [x]"
  by (induction x) auto

lemma Split_append_sep:
  "sep \<notin> set x \<Longrightarrow> Split (x @ sep # rest) sep = x # Split rest sep"
  by (induction x) (auto split: list.splits)

lemma Split_Join:
  "xs \<noteq> [] \<Longrightarrow> \<forall>x\<in>set xs. sep \<notin> set x \<Longrightarrow> Split (Join xs [sep]) sep = xs"
proof (induction xs "[sep]" rule: Join.induct)
  case 1
  then show ?case by simp
next
  case (2 x)
  then show ?case by (simp add: Split_no_sep)
next
  case (3 x y ys)
  then show ?case by (simp add: Split_append_sep)
qed

lemma Join_eq_Nil: "xs \<noteq> [] \<Longrightarrow> \<forall>x\<in>set xs. x \<noteq> [] \<Longrightarrow> Join xs sep \<noteq> []"
  by (induction xs sep rule: Join.induct) auto

lemma joinFlags_bits:
  "joinFlags (map (\<lambda>j. Some (2 ^ j)) js) = Some m \<Longrightarrow>
   bit m n = (n \<in> set js \<and> n < LENGTH('a))" for m :: "'a::len word"
proof (induction js arbitrary: m)
  case Nil
  then show ?case by simp
next
  case (Cons j js)
  then obtain m' where m': "joinFlags (map (\<lambda>j. Some (2 ^ j)) js) = Some m'"
    and m: "m = 2 ^ j OR m'" by auto
  from Cons.IH [OF m'] m show ?case
    by (auto simp: bit_or_iff bit_exp_iff)
qed

lemma joinFlags_defined:
  "\<exists>m. joinFlags (map (\<lambda>j. Some (2 ^ j)) js) = Some m"
  by (induction js) auto

lemma joinFlags_filter:
  "joinFlags (map (\<lambda>j. Some (2 ^ j)) (filter (bit w) [0..<LENGTH('a)])) = Some w"
  for w :: "'a::len word"
proof -
  obtain m :: "'a word"
    where m: "joinFlags (map (\<lambda>j. Some (2 ^ j)) (filter (bit w) [0..<LENGTH('a)])) = Some m"
    using joinFlags_defined by blast
  have "m = w"
    by (rule bit_eqI) (auto simp: joinFlags_bits [OF m] dest: bit_imp_le_length)
  with m show ?thesis by simp
qed

lemma statusName_table: "list_all statusNameParses [0..<16]"
  by (simp add: upt_rec statusNameParses_def parseFlag_def statusTable_def
      statusName_def status_defs parseNumeric_def decimal.simps)

lemma capabilityName_table: "list_all capabilityNameParses [0..<32]"
  by (simp add: upt_rec capabilityNameParses_def parseFlag_def capabilityTable_def
      capabilityName_def capability_defs)

lemma parseFlags_rendered:
  fixes w :: "'a::len word"
  assumes "\<forall>j<LENGTH('a). parseFlag table (name (2 ^ j)) = Some (2 ^ j)
      \<and> CHR ''|'' \<notin> set (name (2 ^ j)) \<and> name (2 ^ j) \<noteq> []"
  shows "parseFlags table
      (Join (map (\<lambda>j. name (2 ^ j)) (filter (bit w) [0..<LENGTH('a)])) ''|'') = Some w"
proof -
  define js where "js = filter (bit w) [0..<LENGTH('a)]"
  define names where "names = map (\<lambda>j. name (2 ^ j)) js"
  have js: "\<And>j. j \<in> set js \<Longrightarrow> j < LENGTH('a)" by (simp add: js_def)
  have p: "\<And>j. j \<in> set js \<Longrightarrow> parseFlag table (name (2 ^ j)) = Some (2 ^ j)"
    using assms js by blast
  have q: "\<And>j. j \<in> set js \<Longrightarrow> CHR ''|'' \<notin> set (name (2 ^ j))"
    using assms js by blast
  have r: "\<And>j. j \<in> set js \<Longrightarrow> name (2 ^ j) \<noteq> []"
    using assms js by blast
  have flags: "joinFlags (map (\<lambda>j. Some (2 ^ j)) js) = Some w"
    unfolding js_def by (rule joinFlags_filter)
  have parsed: "map (parseFlag table) names = map (\<lambda>j. Some (2 ^ j)) js"
    unfolding names_def map_map by (rule map_cong) (simp_all add: p)
  show ?thesis
  proof (cases "js = []")
    case True
    then have "\<forall>j<LENGTH('a). \<not> bit w j" by (simp add: js_def filter_empty_conv)
    then have "w = 0" by (rule no_bits_zero)
    with True show ?thesis
      unfolding js_def [symmetric] by (simp add: parseFlags_def)
  next
    case False
    then have ne: "names \<noteq> []" by (simp add: names_def)
    have nosep: "\<forall>x\<in>set names. CHR ''|'' \<notin> set x"
      unfolding names_def using q by (simp add: image_iff)
    have nonempty: "\<forall>x\<in>set names. x \<noteq> []"
      unfolding names_def using r by (simp add: image_iff)
    have split: "Split (Join names ''|'') CHR ''|'' = names"
      by (rule Split_Join [OF ne nosep])
    have "Join names ''|'' \<noteq> []" by (rule Join_eq_Nil [OF ne nonempty])
    with split parsed flags have "parseFlags table (Join names ''|'') = Some w"
      by (simp add: parseFlags_def)
    then show ?thesis unfolding names_def js_def .
  qed
qed

text \<open>
  C6. CapabilityString and StatusString return for every bitmask: the names they render
  are those of the bits that are set, by ascending bit position, joined with the
  separator; and reading the rendered string back against the bit table, the
  parenthesized numbers included, gives the bitmask again.
\<close>

theorem flag_strings_round_trip:
  "capabilityLoop 0 (capability c) []
     = Some (map (\<lambda>j. capabilityName (2 ^ j)) (filter (bit (capability c)) [0..<32]))
   \<and> CapabilityString c
     = Some (Join (map (\<lambda>j. capabilityName (2 ^ j)) (filter (bit (capability c)) [0..<32]))
               ''|'')
   \<and> Option.bind (CapabilityString c) (parseFlags capabilityTable) = Some (capability c)
   \<and> statusLoop 0 (status c) []
     = Some (map (\<lambda>j. statusName (2 ^ j)) (filter (bit (status c)) [0..<16]))
   \<and> StatusString c
     = Some (Join (map (\<lambda>j. statusName (2 ^ j)) (filter (bit (status c)) [0..<16])) ''|'')
   \<and> Option.bind (StatusString c) (parseFlags statusTable) = Some (status c)"
proof -
  have cl: "capabilityLoop 0 (capability c) []
     = Some (map (\<lambda>j. capabilityName (2 ^ j)) (filter (bit (capability c)) [0..<32]))"
    using capabilityLoop_scan [of 0 "capability c" "[]"] by simp
  have sl: "statusLoop 0 (status c) []
     = Some (map (\<lambda>j. statusName (2 ^ j)) (filter (bit (status c)) [0..<16]))"
    using statusLoop_scan [of 0 "status c" "[]"] by simp
  have ct: "\<forall>j<LENGTH(32). parseFlag capabilityTable (capabilityName (2 ^ j)) = Some (2 ^ j)
      \<and> CHR ''|'' \<notin> set (capabilityName (2 ^ j)) \<and> capabilityName (2 ^ j) \<noteq> []"
    using capabilityName_table by (simp add: list_all_iff capabilityNameParses_def)
  have st: "\<forall>j<LENGTH(16). parseFlag statusTable (statusName (2 ^ j)) = Some (2 ^ j)
      \<and> CHR ''|'' \<notin> set (statusName (2 ^ j)) \<and> statusName (2 ^ j) \<noteq> []"
    using statusName_table by (simp add: list_all_iff statusNameParses_def)
  have cp: "parseFlags capabilityTable
      (Join (map (\<lambda>j. capabilityName (2 ^ j)) (filter (bit (capability c)) [0..<32])) ''|'')
      = Some (capability c)"
    using parseFlags_rendered [OF ct, of "capability c"] by simp
  have sp: "parseFlags statusTable
      (Join (map (\<lambda>j. statusName (2 ^ j)) (filter (bit (status c)) [0..<16])) ''|'')
      = Some (status c)"
    using parseFlags_rendered [OF st, of "status c"] by simp
  show ?thesis using cl sl cp sp by (simp add: CapabilityString_def StatusString_def)
qed

theorem flag_strings_round_trip_witness:
  "CapabilityString ((new_Conn :: wire Conn)\<lparr>capability := 0x80000221\<rparr>)
     = Some ''CLIENT_LONG_PASSWORD|CLIENT_COMPRESS|CLIENT_PROTOCOL_41|CLIENT_REMEMBER_OPTIONS''
   \<and> parseFlags capabilityTable
       ''CLIENT_LONG_PASSWORD|CLIENT_COMPRESS|CLIENT_PROTOCOL_41|CLIENT_REMEMBER_OPTIONS''
     = Some 0x80000221
   \<and> StatusString ((new_Conn :: wire Conn)\<lparr>status := 0x8006\<rparr>)
     = Some ''SERVER_STATUS_AUTOCOMMIT|(4)|(32768)''
   \<and> parseFlags statusTable ''SERVER_STATUS_AUTOCOMMIT|(4)|(32768)'' = Some 0x8006"
proof -
  let ?c = "(new_Conn :: wire Conn)\<lparr>capability := 0x80000221, status := 0x8006\<rparr>"
  have a: "CapabilityString ?c
     = Some ''CLIENT_LONG_PASSWORD|CLIENT_COMPRESS|CLIENT_PROTOCOL_41|CLIENT_REMEMBER_OPTIONS''"
    by (simp add: CapabilityString_def new_Conn_def capabilityLoop.simps capabilityName_def
        Let_def capability_defs)
  have b: "StatusString ?c = Some ''SERVER_STATUS_AUTOCOMMIT|(4)|(32768)''"
    by (simp add: StatusString_def new_Conn_def statusLoop.simps statusName_def Let_def
        decimal.simps status_defs)
  have r: "Option.bind (CapabilityString ?c) (parseFlags capabilityTable) = Some (capability ?c)"
    and t: "Option.bind (StatusString ?c) (parseFlags statusTable) = Some (status ?c)"
    using flag_strings_round_trip [of ?c] by blast+
  have "parseFlags capabilityTable
       ''CLIENT_LONG_PASSWORD|CLIENT_COMPRESS|CLIENT_PROTOCOL_41|CLIENT_REMEMBER_OPTIONS''
     = Some 0x80000221"
    using r unfolding a by simp
  moreover have "parseFlags statusTable ''SERVER_STATUS_AUTOCOMMIT|(4)|(32768)'' = Some 0x8006"
    using t unfolding b by simp
  ultimately have "parseFlags capabilityTable
       ''CLIENT_LONG_PASSWORD|CLIENT_COMPRESS|CLIENT_PROTOCOL_41|CLIENT_REMEMBER_OPTIONS''
     = Some 0x80000221
     \<and> parseFlags statusTable ''SERVER_STATUS_AUTOCOMMIT|(4)|(32768)'' = Some 0x8006"
    by (rule conjI)
  with a b show ?thesis
    by (simp add: CapabilityString_def StatusString_def new_Conn_def)
qed

end
